theory Spec2Isabelle
  imports Main "HOL-Library.Word" "HOL-Library.Multiset"
begin

unbundle bit_operations_syntax

section \<open>The manager's command line tool (tools/manager/whids-man.go)\<close>

text \<open>
  The tool generates a self-signed certificate and its private key
  (\<open>generateCert\<close> with its helpers \<open>publicKey\<close> and \<open>pemBlockForKey\<close>) and
  drives the manager. The functions of the Go standard library that the code
  calls (\<open>rsa.GenerateKey\<close>, \<open>time.Now\<close>, \<open>rand.Int\<close>, \<open>net.ParseIP\<close>,
  \<open>x509.CreateCertificate\<close>, the two key marshallers, the PEM encoder and the
  operating system's answers to open, write and close) are not part of the
  program: they are the fields of an environment \<open>env\<close>, over which every
  theorem is universally quantified. What the program does to the outside is
  explicit state: a file system and the sequence of library calls it has made.
\<close>

subsection \<open>Data\<close>

type_synonym bytes = "8 word list"

text \<open>\<open>rsa.PublicKey\<close>, \<open>rsa.PrivateKey\<close>, \<open>ecdsa.PublicKey\<close>, \<open>ecdsa.PrivateKey\<close>.\<close>

record rsa_PublicKey =
  N :: int
  E :: int

record rsa_PrivateKey =
  PublicKey :: rsa_PublicKey
  D :: int
  Primes :: "int list"

record ecdsa_PublicKey =
  Curve :: string
  X :: int
  Y :: int

record ecdsa_PrivateKey =
  ecPublicKey :: ecdsa_PublicKey
  ecD :: int

text \<open>
  \<open>priv interface{}\<close>: the two dynamic types the type switches name, and any
  other value (the \<open>default\<close> branch).
\<close>

datatype PrivateKey =
    RSA_PrivateKey rsa_PrivateKey
  | ECDSA_PrivateKey ecdsa_PrivateKey
  | Other_PrivateKey

datatype PublicKey =
    RSA_PublicKey rsa_PublicKey
  | ECDSA_PublicKey ecdsa_PublicKey

text \<open>\<open>pem.Block\<close> (no headers are ever set by the program).\<close>

record pem_Block =
  Type :: string
  Bytes :: bytes

text \<open>
  \<open>x509.KeyUsage\<close> is an integer bit set; the constants are \<open>1 << iota\<close> in the
  order of the standard library's declaration.
\<close>

datatype KeyUsageFlag =
    DigitalSignature | ContentCommitment | KeyEncipherment | DataEncipherment
  | KeyAgreement | CertSign | CRLSign | EncipherOnly | DecipherOnly

fun KeyUsage_iota :: "KeyUsageFlag \<Rightarrow> nat" where
  "KeyUsage_iota DigitalSignature = 0"
| "KeyUsage_iota ContentCommitment = 1"
| "KeyUsage_iota KeyEncipherment = 2"
| "KeyUsage_iota DataEncipherment = 3"
| "KeyUsage_iota KeyAgreement = 4"
| "KeyUsage_iota CertSign = 5"
| "KeyUsage_iota CRLSign = 6"
| "KeyUsage_iota EncipherOnly = 7"
| "KeyUsage_iota DecipherOnly = 8"

definition KeyUsage_const :: "KeyUsageFlag \<Rightarrow> int" where
  "KeyUsage_const u = push_bit (KeyUsage_iota u) 1"

definition x509_KeyUsageDigitalSignature :: int where
  "x509_KeyUsageDigitalSignature = KeyUsage_const DigitalSignature"

definition x509_KeyUsageKeyEncipherment :: int where
  "x509_KeyUsageKeyEncipherment = KeyUsage_const KeyEncipherment"

definition has_KeyUsage :: "int \<Rightarrow> KeyUsageFlag \<Rightarrow> bool" where
  "has_KeyUsage ku u = (ku AND KeyUsage_const u \<noteq> 0)"

datatype ExtKeyUsage =
    ExtKeyUsageAny | ExtKeyUsageServerAuth | ExtKeyUsageClientAuth
  | ExtKeyUsageCodeSigning | ExtKeyUsageEmailProtection | ExtKeyUsageOther nat

text \<open>
  \<open>time.Time\<close> as nanoseconds since the epoch and \<open>time.Duration\<close> as
  nanoseconds; \<open>Time.Add\<close> is addition (the standard library's representation
  only overflows hundreds of billions of years away from the epoch, and the
  one duration the program uses fits a 64-bit integer, lemma
  \<open>defaultCertValidity_int64\<close>).
\<close>

type_synonym Time = int
type_synonym Duration = int

definition time_Hour :: Duration where
  "time_Hour = 60 * 60 * 1000000000"

definition Time_Add :: "Time \<Rightarrow> Duration \<Rightarrow> Time" where
  "Time_Add t d = t + d"

text \<open>The fields of \<open>pkix.Name\<close> and \<open>x509.Certificate\<close> that the program sets.\<close>

record pkix_Name =
  Organization :: "string list"

record Certificate =
  SerialNumber :: int
  Subject :: pkix_Name
  NotBefore :: Time
  NotAfter :: Time
  KeyUsage :: int
  ExtKeyUsage :: "ExtKeyUsage list"
  BasicConstraintsValid :: bool
  IPAddresses :: "bytes list"
  DNSNames :: "string list"

text \<open>
  Modelled from the spec: \<open>collector.ManagerConfig\<close> is declared in package
  \<open>collector\<close>, outside this file. The specification describes it as a
  structure "with at minimum a \<open>Host\<close> field"; this file reads that one field,
  as a string.
\<close>

record ManagerConfig =
  Host :: string

subsection \<open>The outside world\<close>

datatype open_flag = O_WRONLY | O_CREATE | O_TRUNC

text \<open>
  The calls the program makes, in the order it makes them. A file handle is
  the name of the file it was opened on.
\<close>

datatype call =
    Call_GenerateKey nat
  | Call_Now
  | Call_rand_Int int
  | Call_CreateCertificate Certificate Certificate "PublicKey option" PrivateKey
  | Call_OpenFile string "open_flag set" nat
  | Call_pem_Encode string pem_Block
  | Call_Close string
  | Call_log_Info string
  | Call_log_Error string
  | Call_Stderr string
  | Call_Stdout string

record os_File =
  perm :: nat
  content :: bytes

record world =
  files :: "string \<rightharpoonup> os_File"
  trace :: "call list"

record env =
  rsa_GenerateKey :: "nat \<Rightarrow> string + rsa_PrivateKey"
  time_Now :: Time
  rand_Int :: "int \<Rightarrow> string + int"
  net_ParseIP :: "string \<Rightarrow> bytes option"
  x509_CreateCertificate ::
    "Certificate \<Rightarrow> Certificate \<Rightarrow> PublicKey option \<Rightarrow> PrivateKey \<Rightarrow> string + bytes"
  x509_MarshalPKCS1PrivateKey :: "rsa_PrivateKey \<Rightarrow> bytes"
  x509_MarshalECPrivateKey :: "ecdsa_PrivateKey \<Rightarrow> string + bytes"
  pem_EncodeToMemory :: "pem_Block \<Rightarrow> bytes"
  open_error :: "string \<Rightarrow> string option"
  write_error :: "string \<Rightarrow> (nat \<times> string) option"
  close_error :: "string \<Rightarrow> string option"
  fatal_rc :: nat

text \<open>
  How a function ends: it returns, the process exits with a code
  (\<open>os.Exit\<close>), or the runtime panics.
\<close>

datatype 'a outcome = Return 'a | Exit nat | Panic

definition emit :: "call \<Rightarrow> world \<Rightarrow> world" where
  "emit c w = w\<lparr>trace := trace w @ [c]\<rparr>"

text \<open>
  \<open>os.OpenFile name flag perm\<close>: the environment decides whether the open
  fails; when it succeeds a missing file is created with \<open>perm\<close> (under
  \<open>O_CREATE\<close>) and an existing one keeps its permissions and is emptied under
  \<open>O_TRUNC\<close>.
\<close>

definition os_OpenFile ::
  "env \<Rightarrow> string \<Rightarrow> open_flag set \<Rightarrow> nat \<Rightarrow> world \<Rightarrow> (string + string) \<times> world" where
  "os_OpenFile e name flag p w =
     (let w' = emit (Call_OpenFile name flag p) w in
      case open_error e name of
        Some err \<Rightarrow> (Inl err, w')
      | None \<Rightarrow>
          (case files w' name of
             None \<Rightarrow>
               if O_CREATE \<in> flag
               then (Inr name, w'\<lparr>files := (files w')(name \<mapsto> \<lparr>perm = p, content = []\<rparr>)\<rparr>)
               else (Inl (''open '' @ name @ '': no such file or directory''), w')
           | Some f \<Rightarrow>
               if O_TRUNC \<in> flag
               then (Inr name, w'\<lparr>files := (files w')(name \<mapsto> f\<lparr>content := []\<rparr>)\<rparr>)
               else (Inr name, w')))"

definition write_file :: "string \<Rightarrow> bytes \<Rightarrow> world \<Rightarrow> world" where
  "write_file name bs w =
     (case files w name of
        None \<Rightarrow> w
      | Some f \<Rightarrow> w\<lparr>files := (files w)(name \<mapsto> f\<lparr>content := content f @ bs\<rparr>)\<rparr>)"

text \<open>
  \<open>pem.Encode out b\<close> writes the encoding of the block to the file; when the
  environment makes the write fail after \<open>n\<close> bytes, those bytes are in the
  file and the error is returned.
\<close>

definition pem_Encode :: "env \<Rightarrow> string \<Rightarrow> pem_Block \<Rightarrow> world \<Rightarrow> string option \<times> world" where
  "pem_Encode e out b w =
     (let w' = emit (Call_pem_Encode out b) w;
          bs = pem_EncodeToMemory e b in
      case write_error e out of
        None \<Rightarrow> (None, write_file out bs w')
      | Some (n, err) \<Rightarrow> (Some err, write_file out (take n bs) w'))"

definition File_Close :: "env \<Rightarrow> string \<Rightarrow> world \<Rightarrow> string option \<times> world" where
  "File_Close e f w = (close_error e f, emit (Call_Close f) w)"

definition log_Info :: "string \<Rightarrow> world \<Rightarrow> world" where
  "log_Info msg w = emit (Call_log_Info msg) w"

subsection \<open>Constants of the program\<close>

definition defaultOrg :: string where
  "defaultOrg = ''WHIDS Manager''"

definition defaultCertValidity :: Duration where
  "defaultCertValidity = time_Hour * 24 * 365"

definition mode_0600 :: nat where
  "mode_0600 = 6 * 8 * 8 + 0 * 8 + 0"

subsection \<open>publicKey and pemBlockForKey\<close>

fun publicKey :: "PrivateKey \<Rightarrow> PublicKey option" where
  "publicKey (RSA_PrivateKey k) = Some (RSA_PublicKey (PublicKey k))"
| "publicKey (ECDSA_PrivateKey k) = Some (ECDSA_PublicKey (ecPublicKey k))"
| "publicKey Other_PrivateKey = None"

fun pemBlockForKey :: "env \<Rightarrow> PrivateKey \<Rightarrow> world \<Rightarrow> pem_Block option outcome \<times> world" where
  "pemBlockForKey e (RSA_PrivateKey k) w =
     (Return (Some \<lparr>Type = ''RSA PRIVATE KEY'', Bytes = x509_MarshalPKCS1PrivateKey e k\<rparr>), w)"
| "pemBlockForKey e (ECDSA_PrivateKey k) w =
     (case x509_MarshalECPrivateKey e k of
        Inl err \<Rightarrow>
          (Exit 2, emit (Call_Stderr (''Unable to marshal ECDSA private key: '' @ err)) w)
      | Inr b \<Rightarrow> (Return (Some \<lparr>Type = ''EC PRIVATE KEY'', Bytes = b\<rparr>), w))"
| "pemBlockForKey e Other_PrivateKey w = (Return None, w)"

subsection \<open>generateCert\<close>

text \<open>The loop over the hosts (\<open>for _, h := range hosts\<close>).\<close>

fun range_hosts :: "env \<Rightarrow> string list \<Rightarrow> Certificate \<Rightarrow> Certificate" where
  "range_hosts e [] template = template"
| "range_hosts e (h # hs) template =
     (case net_ParseIP e h of
        Some ip \<Rightarrow> range_hosts e hs (template\<lparr>IPAddresses := IPAddresses template @ [ip]\<rparr>)
      | None \<Rightarrow> range_hosts e hs (template\<lparr>DNSNames := DNSNames template @ [h]\<rparr>))"

text \<open>
  The result is the returned \<open>error\<close> (\<open>None\<close> for \<open>nil\<close>). The values
  returned by \<open>pem.Encode\<close> and \<open>Close\<close> are dropped, as in the source. A
  \<open>nil\<close> block handed to \<open>pem.Encode\<close> is a nil dereference.
\<close>

definition generateCert :: "env \<Rightarrow> string list \<Rightarrow> world \<Rightarrow> string option outcome \<times> world" where
  "generateCert e hosts w0 =
     (if length hosts = 0 then (Return (Some ''Missing required --host parameter''), w0)
      else
        (let w1 = emit (Call_GenerateKey 4096) w0 in
         (case rsa_GenerateKey e 4096 of
            Inl err \<Rightarrow> (Return (Some (''failed to generate private key: '' @ err)), w1)
          | Inr k \<Rightarrow>
              (let priv = RSA_PrivateKey k;
                   notBefore = time_Now e;
                   w2 = emit Call_Now w1;
                   notAfter = Time_Add notBefore defaultCertValidity;
                   serialNumberLimit = push_bit 128 (1 :: int);
                   w3 = emit (Call_rand_Int serialNumberLimit) w2 in
               (case rand_Int e serialNumberLimit of
                  Inl err \<Rightarrow> (Return (Some (''failed to generate serial number: '' @ err)), w3)
                | Inr serialNumber \<Rightarrow>
                    (let template = \<lparr>
                           SerialNumber = serialNumber,
                           Subject = \<lparr>Organization = [defaultOrg]\<rparr>,
                           NotBefore = notBefore,
                           NotAfter = notAfter,
                           KeyUsage = x509_KeyUsageKeyEncipherment OR x509_KeyUsageDigitalSignature,
                           ExtKeyUsage = [ExtKeyUsageServerAuth],
                           BasicConstraintsValid = True,
                           IPAddresses = [],
                           DNSNames = []\<rparr>;
                         template = range_hosts e hosts template;
                         w4 = emit (Call_CreateCertificate template template (publicKey priv) priv) w3 in
                     (case x509_CreateCertificate e template template (publicKey priv) priv of
                        Inl err \<Rightarrow> (Return (Some (''Failed to create certificate: '' @ err)), w4)
                      | Inr derBytes \<Rightarrow>
                          (case os_OpenFile e ''cert.pem'' {O_WRONLY, O_CREATE, O_TRUNC} mode_0600 w4 of
                             (Inl err, w5) \<Rightarrow>
                               (Return (Some (''failed to open cert.pem for writing: '' @ err)), w5)
                           | (Inr certOut, w5) \<Rightarrow>
                               (let w6 = snd (pem_Encode e certOut
                                               \<lparr>Type = ''CERTIFICATE'', Bytes = derBytes\<rparr> w5);
                                    w7 = snd (File_Close e certOut w6);
                                    w8 = log_Info ''Written cert.pem'' w7 in
                                (case os_OpenFile e ''key.pem'' {O_WRONLY, O_CREATE, O_TRUNC}
                                        mode_0600 w8 of
                                   (Inl err, w9) \<Rightarrow>
                                     (Return (Some (''failed to open key.pem for writing: '' @ err)), w9)
                                 | (Inr keyOut, w9) \<Rightarrow>
                                     (case pemBlockForKey e priv w9 of
                                        (Exit rc, w10) \<Rightarrow> (Exit rc, w10)
                                      | (Panic, w10) \<Rightarrow> (Panic, w10)
                                      | (Return None, w10) \<Rightarrow> (Panic, w10)
                                      | (Return (Some blk), w10) \<Rightarrow>
                                          (let w11 = snd (pem_Encode e keyOut blk w10);
                                               w12 = snd (File_Close e keyOut w11);
                                               w13 = log_Info ''Written key.pem'' w12 in
                                           (Return None, w13)))))))))))))"

subsection \<open>Configuration as JSON\<close>

text \<open>
  \<open>main\<close> prints the skeleton with \<open>json.MarshalIndent\<close> and loads the
  configuration with \<open>json.Unmarshal\<close>. Both belong to the standard library;
  they are modelled here for the structure above, on JSON values with integer
  numbers. Strings are byte strings: bytes above 127 pass through the encoder
  unchanged, and a \<open>\\u\<close> escape of a surrogate half is rejected by the parser.
\<close>

datatype json =
    JNull | JBool bool | JNumber int | JString string
  | JArray "json list" | JObject "(string \<times> json) list"

definition hex_digit :: "nat \<Rightarrow> char" where
  "hex_digit n = (if n < 10 then char_of (48 + n) else char_of (87 + n))"

definition escape_char :: "char \<Rightarrow> string" where
  "escape_char c =
     (if c = CHR 0x22 then [CHR 0x5C, CHR 0x22]
      else if c = CHR 0x5C then [CHR 0x5C, CHR 0x5C]
      else if c = CHR 0x0A then [CHR 0x5C, CHR ''n'']
      else if c = CHR 0x0D then [CHR 0x5C, CHR ''r'']
      else if c = CHR 0x09 then [CHR 0x5C, CHR ''t'']
      else if (of_char c :: nat) < 32 \<or> c = CHR ''<'' \<or> c = CHR ''>'' \<or> c = CHR ''&''
      then [CHR 0x5C, CHR ''u'', CHR ''0'', CHR ''0'',
            hex_digit ((of_char c :: nat) div 16), hex_digit ((of_char c :: nat) mod 16)]
      else [c])"

definition quote :: "string \<Rightarrow> string" where
  "quote s = CHR 0x22 # concat (map escape_char s) @ [CHR 0x22]"

fun digits :: "nat \<Rightarrow> nat \<Rightarrow> string \<Rightarrow> string" where
  "digits 0 n acc = acc"
| "digits (Suc f) n acc =
     (if n < 10 then char_of (48 + n) # acc
      else digits f (n div 10) (char_of (48 + n mod 10) # acc))"

definition itoa :: "int \<Rightarrow> string" where
  "itoa i = (if i < 0 then CHR ''-'' # digits (Suc (nat (- i))) (nat (- i)) []
             else digits (Suc (nat i)) (nat i) [])"

definition newline :: "string \<Rightarrow> string \<Rightarrow> nat \<Rightarrow> string" where
  "newline prefix indent depth = CHR 0x0A # prefix @ concat (replicate depth indent)"

fun sep_by :: "string \<Rightarrow> string list \<Rightarrow> string" where
  "sep_by s [] = []"
| "sep_by s [x] = x"
| "sep_by s (x # y # ys) = x @ s @ sep_by s (y # ys)"

fun print_json :: "string \<Rightarrow> string \<Rightarrow> nat \<Rightarrow> json \<Rightarrow> string"
  and print_elements :: "string \<Rightarrow> string \<Rightarrow> nat \<Rightarrow> json list \<Rightarrow> string list"
  and print_members :: "string \<Rightarrow> string \<Rightarrow> nat \<Rightarrow> (string \<times> json) list \<Rightarrow> string list" where
  "print_json p i d JNull = ''null''"
| "print_json p i d (JBool b) = (if b then ''true'' else ''false'')"
| "print_json p i d (JNumber n) = itoa n"
| "print_json p i d (JString s) = quote s"
| "print_json p i d (JArray xs) =
     (if xs = [] then ''[]''
      else ''['' @ newline p i (Suc d)
           @ sep_by ('','' @ newline p i (Suc d)) (print_elements p i (Suc d) xs)
           @ newline p i d @ '']'')"
| "print_json p i d (JObject ms) =
     (if ms = [] then ''{}''
      else ''{'' @ newline p i (Suc d)
           @ sep_by ('','' @ newline p i (Suc d)) (print_members p i (Suc d) ms)
           @ newline p i d @ ''}'')"
| "print_elements p i d [] = []"
| "print_elements p i d (x # xs) = print_json p i d x # print_elements p i d xs"
| "print_members p i d [] = []"
| "print_members p i d ((k, v) # ms) =
     (quote k @ '': '' @ print_json p i d v) # print_members p i d ms"

text \<open>
  \<open>json.MarshalIndent v prefix indent\<close> for a \<open>ManagerConfig\<close>: the object of
  its fields in declaration order, under the field's own name. It cannot fail
  on such a structure.
\<close>

definition to_json :: "ManagerConfig \<Rightarrow> json" where
  "to_json c = JObject [(''Host'', JString (Host c))]"

definition json_MarshalIndent :: "ManagerConfig \<Rightarrow> string \<Rightarrow> string \<Rightarrow> string + string" where
  "json_MarshalIndent v prefix indent = Inr (print_json prefix indent 0 (to_json v))"

text \<open>The parser: a recursive descent with fuel, one unit per nested value.\<close>

definition is_ws :: "char \<Rightarrow> bool" where
  "is_ws c = (c = CHR '' '' \<or> c = CHR 0x09 \<or> c = CHR 0x0A \<or> c = CHR 0x0D)"

fun skip_ws :: "string \<Rightarrow> string" where
  "skip_ws [] = []"
| "skip_ws (c # cs) = (if is_ws c then skip_ws cs else c # cs)"

definition hex_val :: "char \<Rightarrow> nat option" where
  "hex_val c =
     (let n = (of_char c :: nat) in
      if 48 \<le> n \<and> n \<le> 57 then Some (n - 48)
      else if 97 \<le> n \<and> n \<le> 102 then Some (n - 87)
      else if 65 \<le> n \<and> n \<le> 70 then Some (n - 55)
      else None)"

definition utf8 :: "nat \<Rightarrow> string" where
  "utf8 n =
     (if n < 128 then [char_of n]
      else if n < 2048 then [char_of (192 + n div 64), char_of (128 + n mod 64)]
      else [char_of (224 + n div 4096), char_of (128 + n div 64 mod 64), char_of (128 + n mod 64)])"

definition unescape :: "char \<Rightarrow> char option" where
  "unescape c =
     (if c = CHR 0x22 \<or> c = CHR 0x5C \<or> c = CHR ''/'' then Some c
      else if c = CHR ''b'' then Some (CHR 0x08)
      else if c = CHR ''f'' then Some (CHR 0x0C)
      else if c = CHR ''n'' then Some (CHR 0x0A)
      else if c = CHR ''r'' then Some (CHR 0x0D)
      else if c = CHR ''t'' then Some (CHR 0x09)
      else None)"

fun parse_chars :: "string \<Rightarrow> string \<Rightarrow> (string \<times> string) option" where
  "parse_chars acc [] = None"
| "parse_chars acc [c] = (if c = CHR 0x22 then Some (rev acc, []) else None)"
| "parse_chars acc (c # e # cs) =
     (if c = CHR 0x22 then Some (rev acc, e # cs)
      else if c = CHR 0x5C then
        (if e = CHR ''u'' then
           (case map hex_val (take 4 cs) of
              [Some a, Some b, Some c', Some d] \<Rightarrow>
                (let n = ((a * 16 + b) * 16 + c') * 16 + d in
                 if 55296 \<le> n \<and> n < 57344 then None
                 else parse_chars (rev (utf8 n) @ acc) (drop 4 cs))
            | _ \<Rightarrow> None)
         else (case unescape e of
                 None \<Rightarrow> None
               | Some x \<Rightarrow> parse_chars (x # acc) cs))
      else if (of_char c :: nat) < 32 then None
      else parse_chars (c # acc) (e # cs))"

fun parse_digits :: "nat \<Rightarrow> string \<Rightarrow> nat \<times> string" where
  "parse_digits n [] = (n, [])"
| "parse_digits n (c # cs) =
     (let d = (of_char c :: nat) in
      if 48 \<le> d \<and> d \<le> 57 then parse_digits (10 * n + (d - 48)) cs else (n, c # cs))"

definition is_digit :: "char \<Rightarrow> bool" where
  "is_digit c = (48 \<le> (of_char c :: nat) \<and> (of_char c :: nat) \<le> 57)"

definition parse_number :: "string \<Rightarrow> (json \<times> string) option" where
  "parse_number s =
     (let neg = (take 1 s = ''-''); ds = (if neg then drop 1 s else s) in
      if ds = [] \<or> \<not> is_digit (hd ds) then None
      else if hd ds = CHR ''0'' \<and> 1 < length ds \<and> is_digit (ds ! 1) then None
      else (case parse_digits 0 ds of
              (n, rest) \<Rightarrow>
                if take 1 rest = ''.'' \<or> take 1 rest = ''e'' \<or> take 1 rest = ''E'' then None
                else Some (JNumber (if neg then - int n else int n), rest)))"

fun parse_value :: "nat \<Rightarrow> string \<Rightarrow> (json \<times> string) option"
  and parse_elements :: "nat \<Rightarrow> json list \<Rightarrow> string \<Rightarrow> (json \<times> string) option"
  and parse_members :: "nat \<Rightarrow> (string \<times> json) list \<Rightarrow> string \<Rightarrow> (json \<times> string) option" where
  "parse_value 0 s = None"
| "parse_value (Suc f) s =
     (case skip_ws s of
        [] \<Rightarrow> None
      | c # cs \<Rightarrow>
          if c = CHR ''{'' then
            (if take 1 (skip_ws cs) = ''}'' then Some (JObject [], drop 1 (skip_ws cs))
             else parse_members f [] cs)
          else if c = CHR ''['' then
            (if take 1 (skip_ws cs) = '']'' then Some (JArray [], drop 1 (skip_ws cs))
             else parse_elements f [] cs)
          else if c = CHR 0x22 then
            (case parse_chars [] cs of
               None \<Rightarrow> None
             | Some (str, rest) \<Rightarrow> Some (JString str, rest))
          else if take 4 (c # cs) = ''null'' then Some (JNull, drop 4 (c # cs))
          else if take 4 (c # cs) = ''true'' then Some (JBool True, drop 4 (c # cs))
          else if take 5 (c # cs) = ''false'' then Some (JBool False, drop 5 (c # cs))
          else parse_number (c # cs))"
| "parse_elements 0 acc s = None"
| "parse_elements (Suc f) acc s =
     (case parse_value f s of
        None \<Rightarrow> None
      | Some (v, rest) \<Rightarrow>
          (case skip_ws rest of
             [] \<Rightarrow> None
           | c # cs \<Rightarrow>
               if c = CHR '','' then parse_elements f (acc @ [v]) cs
               else if c = CHR '']'' then Some (JArray (acc @ [v]), cs)
               else None))"
| "parse_members 0 acc s = None"
| "parse_members (Suc f) acc s =
     (case skip_ws s of
        [] \<Rightarrow> None
      | q # s1 \<Rightarrow>
          if q \<noteq> CHR 0x22 then None
          else (case parse_chars [] s1 of
                  None \<Rightarrow> None
                | Some (k, s2) \<Rightarrow>
                    (case skip_ws s2 of
                       [] \<Rightarrow> None
                     | colon # s3 \<Rightarrow>
                         if colon \<noteq> CHR '':'' then None
                         else (case parse_value f s3 of
                                 None \<Rightarrow> None
                               | Some (v, s4) \<Rightarrow>
                                   (case skip_ws s4 of
                                      [] \<Rightarrow> None
                                    | c # cs \<Rightarrow>
                                        if c = CHR '','' then parse_members f (acc @ [(k, v)]) cs
                                        else if c = CHR ''}'' then Some (JObject (acc @ [(k, v)]), cs)
                                        else None)))))"

definition parse_json :: "string \<Rightarrow> json option" where
  "parse_json s =
     (case parse_value (Suc (length s)) s of
        None \<Rightarrow> None
      | Some (v, rest) \<Rightarrow> if skip_ws rest = [] then Some v else None)"

text \<open>
  \<open>json.Unmarshal data &v\<close> for a \<open>ManagerConfig\<close>: an object sets the fields
  whose names it carries (names compared without regard to ASCII case, a later
  member overriding an earlier one), \<open>null\<close> leaves a field or the whole value
  as it is, unknown members are skipped.
\<close>

definition to_lower :: "char \<Rightarrow> char" where
  "to_lower c =
     (let n = (of_char c :: nat) in if 65 \<le> n \<and> n \<le> 90 then char_of (n + 32) else c)"

definition equal_fold :: "string \<Rightarrow> string \<Rightarrow> bool" where
  "equal_fold a b = (map to_lower a = map to_lower b)"

fun set_fields :: "(string \<times> json) list \<Rightarrow> ManagerConfig \<Rightarrow> string + ManagerConfig" where
  "set_fields [] c = Inr c"
| "set_fields ((k, v) # ms) c =
     (if equal_fold k ''Host'' then
        (case v of
           JString s \<Rightarrow> set_fields ms (c\<lparr>Host := s\<rparr>)
         | JNull \<Rightarrow> set_fields ms c
         | _ \<Rightarrow> Inl ''json: cannot unmarshal value into Go struct field ManagerConfig.Host of type string'')
      else set_fields ms c)"

definition json_Unmarshal :: "string \<Rightarrow> ManagerConfig \<Rightarrow> string + ManagerConfig" where
  "json_Unmarshal data v =
     (case parse_json data of
        None \<Rightarrow> Inl ''invalid JSON input''
      | Some (JObject ms) \<Rightarrow> set_fields ms v
      | Some JNull \<Rightarrow> Inr v
      | Some _ \<Rightarrow> Inl ''json: cannot unmarshal value into Go value of type collector.ManagerConfig'')"

subsection \<open>The paths of main\<close>

text \<open>
  \<open>log.LogErrorAndExit\<close> belongs to a library outside this file: it logs the
  error and ends the process with a failure code, which the environment fixes.
\<close>

definition log_LogErrorAndExit :: "env \<Rightarrow> string \<Rightarrow> world \<Rightarrow> 'a outcome \<times> world" where
  "log_LogErrorAndExit e msg w = (Exit (fatal_rc e), emit (Call_log_Error msg) w)"

text \<open>
  The branch \<open>if dumpConfig { ... }\<close>: the zero value is marshalled with an
  empty prefix and an indent of four spaces, printed with \<open>fmt.Println\<close>, and
  the process exits with code 0; a marshalling error panics.
\<close>

definition zero_ManagerConfig :: ManagerConfig where
  "zero_ManagerConfig = \<lparr>Host = []\<rparr>"

definition main_dumpConfig :: "world \<Rightarrow> unit outcome \<times> world" where
  "main_dumpConfig w =
     (case json_MarshalIndent zero_ManagerConfig [] ''    '' of
        Inl err \<Rightarrow> (Panic, w)
      | Inr b \<Rightarrow> (Exit 0, emit (Call_Stdout (b @ [CHR 0x0A])) w))"

text \<open>
  The parsing step of the loader: \<open>b\<close> is what was read from the configuration
  file and \<open>managerConf\<close> the package variable it is unmarshalled into.
\<close>

definition main_parseConfig ::
  "env \<Rightarrow> string \<Rightarrow> ManagerConfig \<Rightarrow> world \<Rightarrow> ManagerConfig outcome \<times> world" where
  "main_parseConfig e b managerConf w =
     (case json_Unmarshal b managerConf of
        Inl err \<Rightarrow> log_LogErrorAndExit e (''Failed to parse configuration data: '' @ err) w
      | Inr c \<Rightarrow> (Return c, w))"

text \<open>
  The branch \<open>if certgen { ... }\<close> of \<open>main\<close>, entered after the configuration
  has been loaded into \<open>managerConf\<close>.
\<close>

definition main_certgen :: "env \<Rightarrow> ManagerConfig \<Rightarrow> world \<Rightarrow> unit outcome \<times> world" where
  "main_certgen e managerConf w =
     (case generateCert e [Host managerConf] w of
        (Return (Some err), w') \<Rightarrow>
          log_LogErrorAndExit e (''Failed to generate key/cert pair: '' @ err) w'
      | (Return None, w') \<Rightarrow>
          (Exit 0,
           log_Info ''Certificate and key generated should be used for testing purposes only.'' w')
      | (Exit rc, w') \<Rightarrow> (Exit rc, w')
      | (Panic, w') \<Rightarrow> (Panic, w'))"

subsection \<open>Notions used to state the properties\<close>

text \<open>
  The template \<open>generateCert\<close> hands to \<open>x509.CreateCertificate\<close> when the
  serial number drawn is \<open>sn\<close>: the struct literal of the source, then the loop.
\<close>

abbreviation template_for :: "env \<Rightarrow> int \<Rightarrow> string list \<Rightarrow> Certificate" where
  "template_for e sn hosts \<equiv>
     range_hosts e hosts
       \<lparr>SerialNumber = sn,
        Subject = \<lparr>Organization = [defaultOrg]\<rparr>,
        NotBefore = time_Now e,
        NotAfter = Time_Add (time_Now e) defaultCertValidity,
        KeyUsage = x509_KeyUsageKeyEncipherment OR x509_KeyUsageDigitalSignature,
        ExtKeyUsage = [ExtKeyUsageServerAuth],
        BasicConstraintsValid = True,
        IPAddresses = [],
        DNSNames = []\<rparr>"

text \<open>
  The specification's classification of a host: an IP entry when the string
  parses as an IP address, a DNS entry otherwise.
\<close>

datatype SAN = SAN_IP bytes | SAN_DNS string

definition classify_host :: "env \<Rightarrow> string \<Rightarrow> SAN" where
  "classify_host e h = (case net_ParseIP e h of Some ip \<Rightarrow> SAN_IP ip | None \<Rightarrow> SAN_DNS h)"

definition SANs :: "Certificate \<Rightarrow> SAN list" where
  "SANs t = map SAN_IP (IPAddresses t) @ map SAN_DNS (DNSNames t)"

fun is_CreateCertificate :: "call \<Rightarrow> bool" where
  "is_CreateCertificate (Call_CreateCertificate t p pub priv) = True"
| "is_CreateCertificate c = False"

subsection \<open>A sample environment\<close>

text \<open>
  Stand-ins for the library, used only to run the model on concrete inputs:
  an IPv4 dotted-quad parser for \<open>net.ParseIP\<close>, a fixed key, a fixed serial
  number and clock, and an operating system on which nothing fails.
\<close>

fun split_dots :: "string \<Rightarrow> string \<Rightarrow> string list" where
  "split_dots acc [] = [rev acc]"
| "split_dots acc (c # cs) =
     (if c = CHR ''.'' then rev acc # split_dots [] cs else split_dots (c # acc) cs)"

definition digit_of :: "char \<Rightarrow> nat option" where
  "digit_of c =
     (let n = (of_char c :: nat) in if 48 \<le> n \<and> n \<le> 57 then Some (n - 48) else None)"

fun decimal :: "nat \<Rightarrow> string \<Rightarrow> nat option" where
  "decimal n [] = Some n"
| "decimal n (c # cs) =
     (case digit_of c of None \<Rightarrow> None | Some d \<Rightarrow> decimal (10 * n + d) cs)"

definition octet :: "string \<Rightarrow> 8 word option" where
  "octet s =
     (if s = [] \<or> 3 < length s then None
      else case decimal 0 s of
             None \<Rightarrow> None
           | Some n \<Rightarrow> if n \<le> 255 then Some (of_nat n) else None)"

definition sample_ParseIP :: "string \<Rightarrow> bytes option" where
  "sample_ParseIP s =
     (case map octet (split_dots [] s) of
        [Some a, Some b, Some c, Some d] \<Rightarrow>
          Some ([0, 0, 0, 0, 0, 0, 0, 0, 0, 0, 255, 255] @ [a, b, c, d])
      | _ \<Rightarrow> None)"

definition sample_key :: "nat \<Rightarrow> rsa_PrivateKey" where
  "sample_key bits =
     \<lparr>PublicKey = \<lparr>N = 2 ^ (bits - 1) + 1, E = 65537\<rparr>, D = 1, Primes = []\<rparr>"

definition sample_env :: env where
  "sample_env =
     \<lparr>rsa_GenerateKey =
        (\<lambda>bits. if bits < 2 then Inl ''too few bits'' else Inr (sample_key bits)),
      time_Now = 1500000000000000000,
      rand_Int = (\<lambda>m. if 0 < m then Inr (m - 1) else Inl ''max must be positive''),
      net_ParseIP = sample_ParseIP,
      x509_CreateCertificate = (\<lambda>t p pub priv. Inr [48, 130]),
      x509_MarshalPKCS1PrivateKey = (\<lambda>k. [48, 131]),
      x509_MarshalECPrivateKey = (\<lambda>k. Inr [48, 132]),
      pem_EncodeToMemory = (\<lambda>b. map (of_nat \<circ> of_char) (Type b) @ Bytes b),
      open_error = (\<lambda>name. None),
      write_error = (\<lambda>name. None),
      close_error = (\<lambda>name. None),
      fatal_rc = 1\<rparr>"

definition sample_hosts :: "string list" where
  "sample_hosts = [''10.0.0.5'', ''manager.internal'']"

text \<open>The same environment with an operating system that refuses to open \<open>key.pem\<close>.\<close>

definition key_open_fails_env :: env where
  "key_open_fails_env =
     sample_env\<lparr>open_error :=
       (\<lambda>name. if name = ''key.pem'' then Some ''open key.pem: permission denied'' else None)\<rparr>"

text \<open>
  The same environment with a full disk: every write to \<open>cert.pem\<close> fails
  before a single byte is written.
\<close>

definition cert_write_fails_env :: env where
  "cert_write_fails_env =
     sample_env\<lparr>write_error :=
       (\<lambda>name. if name = ''cert.pem''
               then Some (0, ''write cert.pem: no space left on device'') else None)\<rparr>"

definition empty_world :: world where
  "empty_world = \<lparr>files = Map.empty, trace = []\<rparr>"

section \<open>Properties\<close>

subsection \<open>Auxiliary facts\<close>

lemma trace_emit [simp]: "trace (emit c w) = trace w @ [c]"
  by (simp add: emit_def)

lemma files_emit [simp]: "files (emit c w) = files w"
  by (simp add: emit_def)

lemma trace_write_file [simp]: "trace (write_file name bs w) = trace w"
  by (simp add: write_file_def split: option.splits)

lemma trace_os_OpenFile [simp]:
  "trace (snd (os_OpenFile e name flag p w)) = trace w @ [Call_OpenFile name flag p]"
  by (simp add: os_OpenFile_def Let_def split: option.splits)

lemma trace_pem_Encode [simp]:
  "trace (snd (pem_Encode e out b w)) = trace w @ [Call_pem_Encode out b]"
  by (simp add: pem_Encode_def Let_def split: option.splits prod.splits)

lemma trace_File_Close [simp]:
  "trace (snd (File_Close e f w)) = trace w @ [Call_Close f]"
  by (simp add: File_Close_def)

lemma trace_log_Info [simp]: "trace (log_Info msg w) = trace w @ [Call_log_Info msg]"
  by (simp add: log_Info_def)

lemma range_hosts_eq:
  "range_hosts e hs t =
     t\<lparr>IPAddresses := IPAddresses t @ List.map_filter (net_ParseIP e) hs,
       DNSNames := DNSNames t @ filter (\<lambda>h. net_ParseIP e h = None) hs\<rparr>"
  by (induction hs arbitrary: t) (auto simp: map_filter_simps split: option.splits)

lemma generateCert_certificates:
  "\<exists>cs. trace (snd (generateCert e hosts w)) = trace w @ cs \<and>
        filter is_CreateCertificate cs =
          (if hosts = [] then []
           else case rsa_GenerateKey e 4096 of
                  Inl err \<Rightarrow> []
                | Inr k \<Rightarrow>
                    (case rand_Int e (push_bit 128 1) of
                       Inl err \<Rightarrow> []
                     | Inr sn \<Rightarrow>
                         [Call_CreateCertificate (template_for e sn hosts) (template_for e sn hosts)
                            (publicKey (RSA_PrivateKey k)) (RSA_PrivateKey k)]))"
  by (auto simp: generateCert_def Let_def case_prod_unfold
      split: sum.splits option.splits outcome.splits)


lemma generateCert_CreateCertificate_call:
  assumes tr: "trace (snd (generateCert e hosts w)) = trace w @ cs"
    and mem: "Call_CreateCertificate t p pub priv \<in> set cs"
  shows "hosts \<noteq> [] \<and>
         (\<exists>k sn. rsa_GenerateKey e 4096 = Inr k \<and> rand_Int e (push_bit 128 1) = Inr sn \<and>
                 t = template_for e sn hosts \<and> p = t \<and>
                 priv = RSA_PrivateKey k \<and> pub = Some (RSA_PublicKey (PublicKey k)))"
proof -
  obtain cs' where cs': "trace (snd (generateCert e hosts w)) = trace w @ cs'"
    and flt: "filter is_CreateCertificate cs' =
          (if hosts = [] then []
           else case rsa_GenerateKey e 4096 of
                  Inl err \<Rightarrow> []
                | Inr k \<Rightarrow>
                    (case rand_Int e (push_bit 128 1) of
                       Inl err \<Rightarrow> []
                     | Inr sn \<Rightarrow>
                         [Call_CreateCertificate (template_for e sn hosts) (template_for e sn hosts)
                            (publicKey (RSA_PrivateKey k)) (RSA_PrivateKey k)]))"
    using generateCert_certificates by blast
  from tr cs' have "cs' = cs" by simp
  with mem have "Call_CreateCertificate t p pub priv \<in> set (filter is_CreateCertificate cs')"
    by simp
  with flt show ?thesis
    by (auto split: if_splits sum.splits)
qed

lemma KeyUsage_template:
  "has_KeyUsage (x509_KeyUsageKeyEncipherment OR x509_KeyUsageDigitalSignature) u
     \<longleftrightarrow> u \<in> {DigitalSignature, KeyEncipherment}"
  by (cases u)
    (simp_all add: has_KeyUsage_def KeyUsage_const_def x509_KeyUsageKeyEncipherment_def
      x509_KeyUsageDigitalSignature_def)

lemma defaultCertValidity_value: "defaultCertValidity = 365 * (24 * (3600 * 1000000000))"
  by (simp add: defaultCertValidity_def time_Hour_def)

lemma defaultCertValidity_int64: "0 < defaultCertValidity \<and> defaultCertValidity < 2 ^ 63"
  by (simp add: defaultCertValidity_def time_Hour_def)

lemma SANs_template_for:
  "IPAddresses (template_for e sn hosts) = List.map_filter (net_ParseIP e) hosts"
  "DNSNames (template_for e sn hosts) = filter (\<lambda>h. net_ParseIP e h = None) hosts"
  by (simp_all add: range_hosts_eq)

lemma mset_classification:
  "mset (map SAN_IP (List.map_filter (net_ParseIP e) hs)
         @ map SAN_DNS (filter (\<lambda>h. net_ParseIP e h = None) hs))
   = mset (map (classify_host e) hs)"
  by (induction hs) (auto simp: map_filter_simps classify_host_def split: option.splits)

lemma os_OpenFile_create_trunc:
  "os_OpenFile e name {O_WRONLY, O_CREATE, O_TRUNC} p w =
     (case open_error e name of
        Some err \<Rightarrow> (Inl err, emit (Call_OpenFile name {O_WRONLY, O_CREATE, O_TRUNC} p) w)
      | None \<Rightarrow>
          (Inr name,
           (emit (Call_OpenFile name {O_WRONLY, O_CREATE, O_TRUNC} p) w)
             \<lparr>files := (files w)(name \<mapsto>
                (case files w name of None \<Rightarrow> \<lparr>perm = p, content = []\<rparr>
                 | Some f \<Rightarrow> f\<lparr>content := []\<rparr>))\<rparr>))"
  by (simp add: os_OpenFile_def Let_def split: option.splits)

lemma generateCert_result_not_missing_host:
  "hosts \<noteq> [] \<Longrightarrow> fst (generateCert e hosts w) \<noteq> Return (Some ''Missing required --host parameter'')"
  by (auto simp: generateCert_def Let_def case_prod_unfold
      split: sum.splits option.splits outcome.splits)

lemma generateCert_success:
  assumes "hosts \<noteq> []"
    and "rsa_GenerateKey e 4096 = Inr k"
    and "rand_Int e (push_bit 128 1) = Inr sn"
    and "x509_CreateCertificate e (template_for e sn hosts) (template_for e sn hosts)
           (publicKey (RSA_PrivateKey k)) (RSA_PrivateKey k) = Inr der"
    and "open_error e ''cert.pem'' = None"
    and "open_error e ''key.pem'' = None"
  shows "fst (generateCert e hosts w) = Return None"
  using assms
  by (simp add: generateCert_def Let_def os_OpenFile_create_trunc)

lemma generateCert_returns:
  "\<exists>r. fst (generateCert e hosts w) = Return r"
  by (auto simp: generateCert_def Let_def case_prod_unfold
      split: sum.splits option.splits outcome.splits)

lemma generateCert_trace:
  "trace (snd (generateCert e hosts w)) = trace w @
     (if hosts = [] then []
      else Call_GenerateKey 4096 #
        (case rsa_GenerateKey e 4096 of
           Inl err \<Rightarrow> []
         | Inr k \<Rightarrow>
             Call_Now # Call_rand_Int (push_bit 128 1) #
             (case rand_Int e (push_bit 128 1) of
                Inl err \<Rightarrow> []
              | Inr sn \<Rightarrow>
                  Call_CreateCertificate (template_for e sn hosts) (template_for e sn hosts)
                    (publicKey (RSA_PrivateKey k)) (RSA_PrivateKey k) #
                  (case x509_CreateCertificate e (template_for e sn hosts) (template_for e sn hosts)
                          (publicKey (RSA_PrivateKey k)) (RSA_PrivateKey k) of
                     Inl err \<Rightarrow> []
                   | Inr der \<Rightarrow>
                       Call_OpenFile ''cert.pem'' {O_WRONLY, O_CREATE, O_TRUNC} mode_0600 #
                       (case open_error e ''cert.pem'' of
                          Some err \<Rightarrow> []
                        | None \<Rightarrow>
                            [Call_pem_Encode ''cert.pem'' \<lparr>Type = ''CERTIFICATE'', Bytes = der\<rparr>,
                             Call_Close ''cert.pem'',
                             Call_log_Info ''Written cert.pem'',
                             Call_OpenFile ''key.pem'' {O_WRONLY, O_CREATE, O_TRUNC} mode_0600] @
                            (case open_error e ''key.pem'' of
                               Some err \<Rightarrow> []
                             | None \<Rightarrow>
                                 [Call_pem_Encode ''key.pem''
                                    \<lparr>Type = ''RSA PRIVATE KEY'',
                                     Bytes = x509_MarshalPKCS1PrivateKey e k\<rparr>,
                                  Call_Close ''key.pem'',
                                  Call_log_Info ''Written key.pem'']))))))"
  by (auto simp: generateCert_def Let_def os_OpenFile_create_trunc
      split: sum.splits option.splits)

lemma main_certgen_trace:
  "trace (snd (main_certgen e c w)) =
     trace (snd (generateCert e [Host c] w)) @
     (case fst (generateCert e [Host c] w) of
        Return (Some err) \<Rightarrow> [Call_log_Error (''Failed to generate key/cert pair: '' @ err)]
      | Return None \<Rightarrow>
          [Call_log_Info ''Certificate and key generated should be used for testing purposes only.'']
      | Exit rc \<Rightarrow> []
      | Panic \<Rightarrow> [])"
  by (simp add: main_certgen_def log_LogErrorAndExit_def case_prod_unfold
      split: outcome.splits option.splits)

lemma generateCert_no_log_Error:
  "trace (snd (generateCert e hosts w)) = trace w @ cs \<Longrightarrow> Call_log_Error m \<notin> set cs"
  by (auto simp: generateCert_trace split: if_splits sum.splits option.splits)

lemma main_certgen_no_missing_host_error:
  assumes "trace (snd (main_certgen e c w)) = trace w @ cs"
  shows "Call_log_Error ''Failed to generate key/cert pair: Missing required --host parameter''
           \<notin> set cs"
proof -
  obtain gs where gs: "trace (snd (generateCert e [Host c] w)) = trace w @ gs"
    using generateCert_certificates by blast
  have ne: "fst (generateCert e [Host c] w) \<noteq> Return (Some ''Missing required --host parameter'')"
    by (rule generateCert_result_not_missing_host) simp
  from assms gs have cs: "cs = gs @
     (case fst (generateCert e [Host c] w) of
        Return (Some err) \<Rightarrow> [Call_log_Error (''Failed to generate key/cert pair: '' @ err)]
      | Return None \<Rightarrow>
          [Call_log_Info ''Certificate and key generated should be used for testing purposes only.'']
      | Exit rc \<Rightarrow> []
      | Panic \<Rightarrow> [])"
    by (simp add: main_certgen_trace)
  from generateCert_no_log_Error [OF gs] ne show ?thesis
    unfolding cs by (auto split: outcome.splits option.splits)
qed

lemma main_certgen_CreateCertificate:
  assumes "trace (snd (main_certgen e c w)) = trace w @ cs"
    and "Call_CreateCertificate t p pub priv \<in> set cs"
  shows "\<exists>sn. t = template_for e sn [Host c]"
proof -
  obtain gs where gs: "trace (snd (generateCert e [Host c] w)) = trace w @ gs"
    using generateCert_certificates by blast
  from assms(1) gs have cs: "cs = gs @
     (case fst (generateCert e [Host c] w) of
        Return (Some err) \<Rightarrow> [Call_log_Error (''Failed to generate key/cert pair: '' @ err)]
      | Return None \<Rightarrow>
          [Call_log_Info ''Certificate and key generated should be used for testing purposes only.'']
      | Exit rc \<Rightarrow> []
      | Panic \<Rightarrow> [])"
    by (simp add: main_certgen_trace)
  with assms(2) have "Call_CreateCertificate t p pub priv \<in> set gs"
    by (auto split: outcome.splits option.splits)
  from generateCert_CreateCertificate_call [OF gs this] show ?thesis
    by blast
qed

lemma main_certgen_success:
  "fst (generateCert e [Host c] w) = Return None \<Longrightarrow> fst (main_certgen e c w) = Exit 0"
  by (simp add: main_certgen_def case_prod_unfold)

lemma range_hosts_write_error [simp]:
  "range_hosts (e\<lparr>write_error := f\<rparr>) hs t = range_hosts e hs t"
  by (induction hs arbitrary: t) (simp_all split: option.splits)

lemma generateCert_result_ignores_write_error:
  "fst (generateCert (e\<lparr>write_error := f\<rparr>) hosts w) = fst (generateCert e hosts w)"
  by (simp add: generateCert_def Let_def os_OpenFile_create_trunc
      split: sum.splits option.splits)

lemma skeleton_text:
  "json_MarshalIndent zero_ManagerConfig [] ''    '' =
     Inr (''{'' @ [CHR 0x0A] @ ''    '' @ [CHR 0x22] @ ''Host'' @ [CHR 0x22] @ '': ''
          @ [CHR 0x22, CHR 0x22, CHR 0x0A] @ ''}'')"
  by (simp add: json_MarshalIndent_def to_json_def zero_ManagerConfig_def newline_def quote_def
      escape_char_def)

lemma skeleton_parses:
  "json_Unmarshal (''{'' @ [CHR 0x0A] @ ''    '' @ [CHR 0x22] @ ''Host'' @ [CHR 0x22] @ '': ''
          @ [CHR 0x22, CHR 0x22, CHR 0x0A] @ ''}'') zero_ManagerConfig = Inr zero_ManagerConfig"
  by (simp add: json_Unmarshal_def parse_json_def is_ws_def equal_fold_def to_lower_def
      zero_ManagerConfig_def)

lemma skeleton_line_parses:
  "json_Unmarshal ((''{'' @ [CHR 0x0A] @ ''    '' @ [CHR 0x22] @ ''Host'' @ [CHR 0x22] @ '': ''
          @ [CHR 0x22, CHR 0x22, CHR 0x0A] @ ''}'') @ [CHR 0x0A]) zero_ManagerConfig
     = Inr zero_ManagerConfig"
  by (simp add: json_Unmarshal_def parse_json_def is_ws_def equal_fold_def to_lower_def
      zero_ManagerConfig_def)

subsection \<open>Certificate generation\<close>

text \<open>
  C1. For a non-empty host list (and a run in which the key and the serial
  number are obtained, so that a certificate is made at all), exactly one
  certificate is created, and the Subject Alternative Names of its template
  are the classification of the hosts: the IP entries are the parsed addresses
  of the hosts that parse as an IP address, the DNS entries are the other
  hosts, both in input order. Entry for entry (as multisets) the names are
  the classified hosts: every host gives exactly one entry, none is omitted
  and none is entered twice, so there are as many entries as hosts (a host
  listed twice is two inputs and gives two entries).
\<close>

theorem generateCert_SAN_classification:
  assumes "hosts \<noteq> []"
    and "rsa_GenerateKey e 4096 = Inr k"
    and "rand_Int e (push_bit 128 1) = Inr sn"
  shows "\<exists>cs t. trace (snd (generateCert e hosts w)) = trace w @ cs \<and>
           filter is_CreateCertificate cs =
             [Call_CreateCertificate t t (publicKey (RSA_PrivateKey k)) (RSA_PrivateKey k)] \<and>
           IPAddresses t = List.map_filter (net_ParseIP e) hosts \<and>
           DNSNames t = filter (\<lambda>h. net_ParseIP e h = None) hosts \<and>
           mset (SANs t) = mset (map (classify_host e) hosts) \<and>
           length (SANs t) = length hosts"
proof -
  let ?t = "template_for e sn hosts"
  from generateCert_certificates [of e hosts w] assms
  obtain cs where cs: "trace (snd (generateCert e hosts w)) = trace w @ cs"
    and flt: "filter is_CreateCertificate cs =
      [Call_CreateCertificate ?t ?t (publicKey (RSA_PrivateKey k)) (RSA_PrivateKey k)]"
    by auto
  have ms: "mset (SANs ?t) = mset (map (classify_host e) hosts)"
    unfolding SANs_def SANs_template_for by (rule mset_classification)
  then have "size (mset (SANs ?t)) = size (mset (map (classify_host e) hosts))"
    by (rule arg_cong)
  then have len: "length (SANs ?t) = length hosts"
    by simp
  from cs flt ms len SANs_template_for show ?thesis
    by blast
qed

theorem generateCert_SAN_classification_witness:
  "\<exists>cs t. trace (snd (generateCert sample_env sample_hosts empty_world)) = trace empty_world @ cs \<and>
     filter is_CreateCertificate cs =
       [Call_CreateCertificate t t (publicKey (RSA_PrivateKey (sample_key 4096)))
          (RSA_PrivateKey (sample_key 4096))] \<and>
     IPAddresses t = [[0, 0, 0, 0, 0, 0, 0, 0, 0, 0, 255, 255, 10, 0, 0, 5]] \<and>
     DNSNames t = [''manager.internal''] \<and>
     mset (SANs t) =
       {#SAN_IP [0, 0, 0, 0, 0, 0, 0, 0, 0, 0, 255, 255, 10, 0, 0, 5], SAN_DNS ''manager.internal''#} \<and>
     length (SANs t) = 2"
proof -
  have h1: "sample_hosts \<noteq> []"
    by (simp add: sample_hosts_def)
  have h2: "rsa_GenerateKey sample_env 4096 = Inr (sample_key 4096)"
    by (simp add: sample_env_def)
  have h3: "rand_Int sample_env (push_bit 128 1) = Inr (2 ^ 128 - 1)"
    by (simp add: sample_env_def push_bit_eq_mult)
  have p1: "net_ParseIP sample_env ''10.0.0.5''
              = Some [0, 0, 0, 0, 0, 0, 0, 0, 0, 0, 255, 255, 10, 0, 0, 5]"
    by (simp add: sample_env_def sample_ParseIP_def octet_def digit_of_def)
  have p2: "net_ParseIP sample_env ''manager.internal'' = None"
    by (simp add: sample_env_def sample_ParseIP_def octet_def digit_of_def)
  from generateCert_SAN_classification [OF h1 h2 h3, of empty_world] show ?thesis
    by (simp add: sample_hosts_def map_filter_simps classify_host_def p1 p2 numeral_2_eq_2)
qed

text \<open>
  C3. Every certificate template \<open>generateCert\<close> hands to
  \<open>x509.CreateCertificate\<close> has \<open>NotBefore\<close> equal to the generation time (the
  value of \<open>time.Now\<close>) and \<open>NotAfter\<close> equal to \<open>NotBefore\<close> plus 365 times 24
  hours; hence \<open>NotBefore \<le> NotAfter\<close> and the generation time lies in the
  window.
\<close>

theorem generateCert_validity_window:
  assumes "trace (snd (generateCert e hosts w)) = trace w @ cs"
    and "Call_CreateCertificate t p pub priv \<in> set cs"
  shows "NotBefore t = time_Now e \<and>
         NotAfter t = NotBefore t + 365 * (24 * (3600 * 1000000000)) \<and>
         NotBefore t \<le> NotAfter t \<and>
         NotBefore t \<le> time_Now e \<and> time_Now e \<le> NotAfter t"
proof -
  from generateCert_CreateCertificate_call [OF assms]
  obtain sn where t: "t = template_for e sn hosts" by blast
  show ?thesis
    unfolding t by (simp add: range_hosts_eq Time_Add_def defaultCertValidity_value)
qed

theorem generateCert_validity_window_witness:
  "NotBefore (template_for sample_env (2 ^ 128 - 1) sample_hosts) = 1500000000000000000 \<and>
   NotAfter (template_for sample_env (2 ^ 128 - 1) sample_hosts) = 1531536000000000000"
proof -
  let ?G = "generateCert sample_env sample_hosts empty_world"
  let ?t = "template_for sample_env (2 ^ 128 - 1) sample_hosts"
  let ?k = "RSA_PrivateKey (sample_key 4096)"
  have h1: "trace (snd ?G) = trace empty_world @ trace (snd ?G)"
    by (simp add: empty_world_def)
  have h2: "Call_CreateCertificate ?t ?t (publicKey ?k) ?k \<in> set (trace (snd ?G))"
    by (simp add: generateCert_def sample_env_def empty_world_def sample_hosts_def Let_def
        os_OpenFile_def pem_Encode_def File_Close_def log_Info_def emit_def write_file_def)
  from generateCert_validity_window [OF h1 h2] show ?thesis
    by (simp add: sample_env_def)
qed

text \<open>
  C4. Every certificate template built by \<open>generateCert\<close> has as serial
  number the value \<open>rand.Int\<close> returned for the limit \<open>2^128\<close>, which lies in
  \<open>[0, 2^128)\<close> when \<open>rand.Int\<close> keeps its contract of returning a value below
  its limit; the organization "WHIDS Manager"; exactly the key usages digital
  signature and key encipherment; the one extended key usage server
  authentication; \<open>BasicConstraintsValid\<close> set. It is passed as both template
  and parent (issuer equal to subject), with the generated RSA key as signing
  key and that key's public half as the certified key.
\<close>

theorem generateCert_template_fields:
  assumes tr: "trace (snd (generateCert e hosts w)) = trace w @ cs"
    and mem: "Call_CreateCertificate t p pub priv \<in> set cs"
    and rnd: "\<And>m n. rand_Int e m = Inr n \<Longrightarrow> 0 \<le> n \<and> n < m"
  shows "rand_Int e (2 ^ 128) = Inr (SerialNumber t) \<and>
         0 \<le> SerialNumber t \<and> SerialNumber t < 2 ^ 128 \<and>
         Organization (Subject t) = [''WHIDS Manager''] \<and>
         (\<forall>u. has_KeyUsage (KeyUsage t) u \<longleftrightarrow> u \<in> {DigitalSignature, KeyEncipherment}) \<and>
         ExtKeyUsage t = [ExtKeyUsageServerAuth] \<and>
         BasicConstraintsValid t \<and>
         p = t \<and> Subject p = Subject t \<and>
         (\<exists>k. rsa_GenerateKey e 4096 = Inr k \<and> priv = RSA_PrivateKey k \<and>
              pub = Some (RSA_PublicKey (PublicKey k)))"
proof -
  from generateCert_CreateCertificate_call [OF tr mem]
  obtain k sn where k: "rsa_GenerateKey e 4096 = Inr k"
    and sn: "rand_Int e (push_bit 128 1) = Inr sn"
    and t: "t = template_for e sn hosts" and p: "p = t"
    and priv: "priv = RSA_PrivateKey k" and pub: "pub = Some (RSA_PublicKey (PublicKey k))"
    by blast
  have lim: "push_bit 128 (1::int) = 2 ^ 128"
    by (simp add: push_bit_eq_mult)
  from rnd [OF sn] have range: "0 \<le> sn \<and> sn < 2 ^ 128"
    by (simp only: lim)
  have serial: "SerialNumber t = sn"
    unfolding t by (simp add: range_hosts_eq)
  have org: "Organization (Subject t) = [''WHIDS Manager'']"
    unfolding t by (simp add: range_hosts_eq defaultOrg_def)
  have ku: "\<forall>u. has_KeyUsage (KeyUsage t) u \<longleftrightarrow> u \<in> {DigitalSignature, KeyEncipherment}"
    unfolding t by (simp add: range_hosts_eq KeyUsage_template)
  have rest: "ExtKeyUsage t = [ExtKeyUsageServerAuth] \<and> BasicConstraintsValid t"
    unfolding t by (simp add: range_hosts_eq)
  from sn have "rand_Int e (2 ^ 128) = Inr (SerialNumber t)"
    by (simp only: lim serial)
  with range serial org ku rest p k priv pub show ?thesis
    by simp
qed

theorem generateCert_template_fields_witness:
  "rand_Int sample_env (2 ^ 128) = Inr (SerialNumber (template_for sample_env (2 ^ 128 - 1) sample_hosts)) \<and>
   SerialNumber (template_for sample_env (2 ^ 128 - 1) sample_hosts) = 2 ^ 128 - 1 \<and>
   Organization (Subject (template_for sample_env (2 ^ 128 - 1) sample_hosts)) = [''WHIDS Manager''] \<and>
   KeyUsage (template_for sample_env (2 ^ 128 - 1) sample_hosts) = 5 \<and>
   has_KeyUsage (KeyUsage (template_for sample_env (2 ^ 128 - 1) sample_hosts)) DigitalSignature \<and>
   has_KeyUsage (KeyUsage (template_for sample_env (2 ^ 128 - 1) sample_hosts)) KeyEncipherment \<and>
   \<not> has_KeyUsage (KeyUsage (template_for sample_env (2 ^ 128 - 1) sample_hosts)) CertSign \<and>
   ExtKeyUsage (template_for sample_env (2 ^ 128 - 1) sample_hosts) = [ExtKeyUsageServerAuth] \<and>
   BasicConstraintsValid (template_for sample_env (2 ^ 128 - 1) sample_hosts)"
proof -
  let ?G = "generateCert sample_env sample_hosts empty_world"
  let ?t = "template_for sample_env (2 ^ 128 - 1) sample_hosts"
  let ?k = "RSA_PrivateKey (sample_key 4096)"
  have h1: "trace (snd ?G) = trace empty_world @ trace (snd ?G)"
    by (simp add: empty_world_def)
  have h2: "Call_CreateCertificate ?t ?t (publicKey ?k) ?k \<in> set (trace (snd ?G))"
    by (simp add: generateCert_def sample_env_def empty_world_def sample_hosts_def Let_def
        os_OpenFile_def pem_Encode_def File_Close_def log_Info_def emit_def write_file_def)
  have h3: "\<And>m n. rand_Int sample_env m = Inr n \<Longrightarrow> 0 \<le> n \<and> n < m"
    by (simp add: sample_env_def split: if_splits)
  have ku: "KeyUsage ?t = 5"
    by (simp add: range_hosts_eq x509_KeyUsageKeyEncipherment_def
        x509_KeyUsageDigitalSignature_def KeyUsage_const_def)
  have sn: "SerialNumber ?t = 2 ^ 128 - 1"
    by (simp add: range_hosts_eq)
  from generateCert_template_fields [OF h1 h2 h3] ku sn show ?thesis
    by simp
qed

subsection \<open>The empty host list\<close>

text \<open>
  C2. Called with an empty host list, \<open>generateCert\<close> returns the error
  "Missing required --host parameter" and leaves the world as it was: no file
  is created or written and no library call (in particular no key generation)
  is made.
\<close>

theorem generateCert_empty_hosts:
  "generateCert e [] w = (Return (Some ''Missing required --host parameter''), w)"
  by (simp add: generateCert_def)

subsection \<open>Persistence\<close>

text \<open>
  C5 (evaluation at the failing input). On a full disk, where the write of the
  PEM block to \<open>cert.pem\<close> fails, \<open>pem.Encode\<close> returns the error, yet
  \<open>generateCert\<close> goes on, logs "Written cert.pem", returns \<open>nil\<close> and leaves
  an empty \<open>cert.pem\<close>: the value returned by \<open>pem.Encode\<close> is dropped (in
  general the result of \<open>generateCert\<close> does not depend on write errors at
  all, lemma \<open>generateCert_result_ignores_write_error\<close>).
\<close>

theorem generateCert_drops_Encode_error:
  "(\<forall>w. fst (pem_Encode cert_write_fails_env ''cert.pem''
              \<lparr>Type = ''CERTIFICATE'', Bytes = [48, 130]\<rparr> w)
          = Some ''write cert.pem: no space left on device'') \<and>
   Call_pem_Encode ''cert.pem'' \<lparr>Type = ''CERTIFICATE'', Bytes = [48, 130]\<rparr>
     \<in> set (trace (snd (generateCert cert_write_fails_env sample_hosts empty_world))) \<and>
   Call_log_Info ''Written cert.pem''
     \<in> set (trace (snd (generateCert cert_write_fails_env sample_hosts empty_world))) \<and>
   fst (generateCert cert_write_fails_env sample_hosts empty_world) = Return None \<and>
   files (snd (generateCert cert_write_fails_env sample_hosts empty_world)) ''cert.pem''
     = Some \<lparr>perm = 384, content = []\<rparr>"
proof (intro conjI allI)
  fix w
  show "fst (pem_Encode cert_write_fails_env ''cert.pem''
              \<lparr>Type = ''CERTIFICATE'', Bytes = [48, 130]\<rparr> w)
          = Some ''write cert.pem: no space left on device''"
    by (simp add: pem_Encode_def cert_write_fails_env_def Let_def)
next
  show "fst (generateCert cert_write_fails_env sample_hosts empty_world) = Return None"
    by (simp add: generateCert_def cert_write_fails_env_def sample_env_def sample_hosts_def
        Let_def os_OpenFile_create_trunc)
next
  show "files (snd (generateCert cert_write_fails_env sample_hosts empty_world)) ''cert.pem''
     = Some \<lparr>perm = 384, content = []\<rparr>"
    by (simp add: generateCert_def cert_write_fails_env_def sample_env_def sample_hosts_def
        empty_world_def Let_def os_OpenFile_create_trunc pem_Encode_def File_Close_def
        log_Info_def write_file_def mode_0600_def)
next
  show "Call_pem_Encode ''cert.pem'' \<lparr>Type = ''CERTIFICATE'', Bytes = [48, 130]\<rparr>
     \<in> set (trace (snd (generateCert cert_write_fails_env sample_hosts empty_world)))"
    by (simp add: generateCert_trace cert_write_fails_env_def sample_env_def sample_hosts_def
        push_bit_eq_mult)
next
  show "Call_log_Info ''Written cert.pem''
     \<in> set (trace (snd (generateCert cert_write_fails_env sample_hosts empty_world)))"
    by (simp add: generateCert_trace cert_write_fails_env_def sample_env_def sample_hosts_def
        push_bit_eq_mult)
qed

text \<open>
  C6. In a run that reaches persistence, the calls are, in this order: open
  \<open>cert.pem\<close>, encode the certificate into it, close it, log, open \<open>key.pem\<close>,
  encode the key into it, close it, log; both files are opened write-only,
  create, truncate, with mode 0600 (read and write for the owner, nothing for
  group and others). When the open of \<open>key.pem\<close> fails, \<open>generateCert\<close>
  returns the error "failed to open key.pem for writing: ..." and the file
  system is the initial one with \<open>cert.pem\<close> as it was written: nothing is
  rolled back and \<open>key.pem\<close> is untouched.
\<close>

theorem generateCert_persistence:
  assumes "hosts \<noteq> []"
    and "rsa_GenerateKey e 4096 = Inr k"
    and "rand_Int e (push_bit 128 1) = Inr sn"
    and "x509_CreateCertificate e (template_for e sn hosts) (template_for e sn hosts)
           (publicKey (RSA_PrivateKey k)) (RSA_PrivateKey k) = Inr der"
  shows "trace (snd (generateCert e hosts w)) =
           trace w @
           [Call_GenerateKey 4096, Call_Now, Call_rand_Int (2 ^ 128),
            Call_CreateCertificate (template_for e sn hosts) (template_for e sn hosts)
              (publicKey (RSA_PrivateKey k)) (RSA_PrivateKey k),
            Call_OpenFile ''cert.pem'' {O_WRONLY, O_CREATE, O_TRUNC} mode_0600] @
           (if open_error e ''cert.pem'' = None
            then [Call_pem_Encode ''cert.pem'' \<lparr>Type = ''CERTIFICATE'', Bytes = der\<rparr>,
                  Call_Close ''cert.pem'',
                  Call_log_Info ''Written cert.pem'',
                  Call_OpenFile ''key.pem'' {O_WRONLY, O_CREATE, O_TRUNC} mode_0600] @
                 (if open_error e ''key.pem'' = None
                  then [Call_pem_Encode ''key.pem''
                          \<lparr>Type = ''RSA PRIVATE KEY'', Bytes = x509_MarshalPKCS1PrivateKey e k\<rparr>,
                        Call_Close ''key.pem'',
                        Call_log_Info ''Written key.pem'']
                  else [])
            else []) \<and>
         mode_0600 = 6 * 8 ^ 2 \<and>
         (\<forall>err. open_error e ''cert.pem'' = None \<and> open_error e ''key.pem'' = Some err \<longrightarrow>
            fst (generateCert e hosts w) =
              Return (Some (''failed to open key.pem for writing: '' @ err)) \<and>
            files (snd (generateCert e hosts w)) =
              (files w)(''cert.pem'' \<mapsto>
                 \<lparr>perm = (case files w ''cert.pem'' of None \<Rightarrow> mode_0600 | Some f \<Rightarrow> perm f),
                  content =
                    (case write_error e ''cert.pem'' of
                       None \<Rightarrow> pem_EncodeToMemory e \<lparr>Type = ''CERTIFICATE'', Bytes = der\<rparr>
                     | Some (n, werr) \<Rightarrow>
                         take n (pem_EncodeToMemory e \<lparr>Type = ''CERTIFICATE'', Bytes = der\<rparr>))\<rparr>))"
proof -
  have lim: "push_bit 128 (1::int) = 2 ^ 128"
    by (simp add: push_bit_eq_mult)
  have tr: "trace (snd (generateCert e hosts w)) =
           trace w @
           [Call_GenerateKey 4096, Call_Now, Call_rand_Int (2 ^ 128),
            Call_CreateCertificate (template_for e sn hosts) (template_for e sn hosts)
              (publicKey (RSA_PrivateKey k)) (RSA_PrivateKey k),
            Call_OpenFile ''cert.pem'' {O_WRONLY, O_CREATE, O_TRUNC} mode_0600] @
           (if open_error e ''cert.pem'' = None
            then [Call_pem_Encode ''cert.pem'' \<lparr>Type = ''CERTIFICATE'', Bytes = der\<rparr>,
                  Call_Close ''cert.pem'',
                  Call_log_Info ''Written cert.pem'',
                  Call_OpenFile ''key.pem'' {O_WRONLY, O_CREATE, O_TRUNC} mode_0600] @
                 (if open_error e ''key.pem'' = None
                  then [Call_pem_Encode ''key.pem''
                          \<lparr>Type = ''RSA PRIVATE KEY'', Bytes = x509_MarshalPKCS1PrivateKey e k\<rparr>,
                        Call_Close ''key.pem'',
                        Call_log_Info ''Written key.pem'']
                  else [])
            else [])"
    using assms by (auto simp: generateCert_trace lim split: option.splits)
  have res: "fst (generateCert e hosts w) =
              Return (Some (''failed to open key.pem for writing: '' @ err))"
    if "open_error e ''cert.pem'' = None" "open_error e ''key.pem'' = Some err" for err
    using assms that
    by (simp add: generateCert_def Let_def os_OpenFile_create_trunc)
  have fs: "files (snd (generateCert e hosts w)) =
              (files w)(''cert.pem'' \<mapsto>
                 \<lparr>perm = (case files w ''cert.pem'' of None \<Rightarrow> mode_0600 | Some f \<Rightarrow> perm f),
                  content =
                    (case write_error e ''cert.pem'' of
                       None \<Rightarrow> pem_EncodeToMemory e \<lparr>Type = ''CERTIFICATE'', Bytes = der\<rparr>
                     | Some (n, werr) \<Rightarrow>
                         take n (pem_EncodeToMemory e \<lparr>Type = ''CERTIFICATE'', Bytes = der\<rparr>))\<rparr>)"
    if "open_error e ''cert.pem'' = None" "open_error e ''key.pem'' = Some err" for err
    using assms that
    by (cases "files w ''cert.pem''")
      (auto simp: generateCert_def os_OpenFile_create_trunc File_Close_def pem_Encode_def
        Let_def write_file_def log_Info_def split: option.splits)
  have m: "mode_0600 = 6 * 8 ^ 2"
    by (simp add: mode_0600_def)
  from tr m res fs show ?thesis
    by (intro conjI allI impI) (simp_all only:)
qed

theorem generateCert_persistence_witness:
  "fst (generateCert key_open_fails_env sample_hosts empty_world) =
     Return (Some ''failed to open key.pem for writing: open key.pem: permission denied'') \<and>
   files (snd (generateCert key_open_fails_env sample_hosts empty_world)) =
     Map.empty(''cert.pem'' \<mapsto>
       \<lparr>perm = 384, content = map (of_nat \<circ> of_char) ''CERTIFICATE'' @ [48, 130]\<rparr>) \<and>
   files (snd (generateCert key_open_fails_env sample_hosts empty_world)) ''key.pem'' = None"
proof -
  let ?e = key_open_fails_env
  have h1: "sample_hosts \<noteq> []"
    by (simp add: sample_hosts_def)
  have h2: "rsa_GenerateKey ?e 4096 = Inr (sample_key 4096)"
    by (simp add: key_open_fails_env_def sample_env_def)
  have h3: "rand_Int ?e (push_bit 128 1) = Inr (2 ^ 128 - 1)"
    by (simp add: key_open_fails_env_def sample_env_def push_bit_eq_mult)
  have h4: "x509_CreateCertificate ?e (template_for ?e (2 ^ 128 - 1) sample_hosts)
              (template_for ?e (2 ^ 128 - 1) sample_hosts)
              (publicKey (RSA_PrivateKey (sample_key 4096))) (RSA_PrivateKey (sample_key 4096))
            = Inr [48, 130]"
    by (simp add: key_open_fails_env_def sample_env_def)
  have o1: "open_error ?e ''cert.pem'' = None"
    by (simp add: key_open_fails_env_def)
  have o2: "open_error ?e ''key.pem'' = Some ''open key.pem: permission denied''"
    by (simp add: key_open_fails_env_def)
  have wr: "write_error ?e ''cert.pem'' = None"
    by (simp add: key_open_fails_env_def sample_env_def)
  have enc: "pem_EncodeToMemory ?e \<lparr>Type = ''CERTIFICATE'', Bytes = [48, 130]\<rparr>
               = map (of_nat \<circ> of_char) ''CERTIFICATE'' @ [48, 130]"
    by (simp add: key_open_fails_env_def sample_env_def)
  from generateCert_persistence [OF h1 h2 h3 h4, of empty_world] o1 o2
  have "fst (generateCert ?e sample_hosts empty_world) =
     Return (Some (''failed to open key.pem for writing: '' @ ''open key.pem: permission denied''))"
    and "files (snd (generateCert ?e sample_hosts empty_world)) =
              (files empty_world)(''cert.pem'' \<mapsto>
                 \<lparr>perm = (case files empty_world ''cert.pem'' of None \<Rightarrow> mode_0600 | Some f \<Rightarrow> perm f),
                  content =
                    (case write_error ?e ''cert.pem'' of
                       None \<Rightarrow> pem_EncodeToMemory ?e \<lparr>Type = ''CERTIFICATE'', Bytes = [48, 130]\<rparr>
                     | Some (n, werr) \<Rightarrow>
                         take n (pem_EncodeToMemory ?e \<lparr>Type = ''CERTIFICATE'', Bytes = [48, 130]\<rparr>))\<rparr>)"
    by blast+
  then show ?thesis
    by (simp add: wr enc empty_world_def mode_0600_def)
qed

subsection \<open>The command line path\<close>

text \<open>
  C9. With \<open>-certgen\<close>, \<open>main\<close> calls \<open>generateCert\<close> on the one-element list
  of the configured host (its calls are those of that run, followed by its
  own log line), so \<open>generateCert\<close> never returns "Missing required --host
  parameter" and \<open>main\<close> never reports it. When the configured host is
  the empty string and \<open>net.ParseIP\<close> rejects the empty string, every
  certificate created has no IP entry and the single DNS entry \<open>""\<close>; when
  moreover the library calls and the two opens succeed, \<open>generateCert\<close>
  returns \<open>nil\<close>, the process exits with code 0, and exactly one such
  certificate is created.
\<close>

theorem main_certgen_host_list:
  "(\<exists>cs. trace (snd (main_certgen e c w)) = trace (snd (generateCert e [Host c] w)) @ cs) \<and>
   fst (generateCert e [Host c] w) \<noteq> Return (Some ''Missing required --host parameter'') \<and>
   (\<forall>cs. trace (snd (main_certgen e c w)) = trace w @ cs \<longrightarrow>
      Call_log_Error ''Failed to generate key/cert pair: Missing required --host parameter''
        \<notin> set cs) \<and>
   (Host c = '''' \<and> net_ParseIP e '''' = None \<longrightarrow>
      (\<forall>cs t p pub priv.
         trace (snd (main_certgen e c w)) = trace w @ cs \<and>
         Call_CreateCertificate t p pub priv \<in> set cs \<longrightarrow>
         IPAddresses t = [] \<and> DNSNames t = ['''']) \<and>
      (\<forall>k sn der.
         rsa_GenerateKey e 4096 = Inr k \<and>
         rand_Int e (push_bit 128 1) = Inr sn \<and>
         x509_CreateCertificate e (template_for e sn ['''']) (template_for e sn [''''])
           (publicKey (RSA_PrivateKey k)) (RSA_PrivateKey k) = Inr der \<and>
         open_error e ''cert.pem'' = None \<and> open_error e ''key.pem'' = None \<longrightarrow>
         fst (generateCert e [Host c] w) = Return None \<and>
         fst (main_certgen e c w) = Exit 0 \<and>
         (\<exists>cs t. trace (snd (generateCert e [Host c] w)) = trace w @ cs \<and>
            filter is_CreateCertificate cs =
              [Call_CreateCertificate t t (publicKey (RSA_PrivateKey k)) (RSA_PrivateKey k)] \<and>
            IPAddresses t = [] \<and> DNSNames t = [''''])))"
proof (intro conjI impI allI)
  show "\<exists>cs. trace (snd (main_certgen e c w)) = trace (snd (generateCert e [Host c] w)) @ cs"
    by (simp add: main_certgen_trace)
next
  show "fst (generateCert e [Host c] w) \<noteq> Return (Some ''Missing required --host parameter'')"
    by (rule generateCert_result_not_missing_host) simp
next
  fix cs
  assume "trace (snd (main_certgen e c w)) = trace w @ cs"
  then show "Call_log_Error ''Failed to generate key/cert pair: Missing required --host parameter''
               \<notin> set cs"
    by (rule main_certgen_no_missing_host_error)
next
  fix cs t p pub priv
  assume h: "Host c = '''' \<and> net_ParseIP e '''' = None"
    and tr: "trace (snd (main_certgen e c w)) = trace w @ cs \<and>
             Call_CreateCertificate t p pub priv \<in> set cs"
  from tr main_certgen_CreateCertificate [of e c w cs t p pub priv]
  obtain sn where "t = template_for e sn [Host c]"
    by blast
  with h show "IPAddresses t = []" and "DNSNames t = ['''']"
    by simp_all
next
  fix k sn der
  assume h: "Host c = '''' \<and> net_ParseIP e '''' = None"
    and ok: "rsa_GenerateKey e 4096 = Inr k \<and>
         rand_Int e (push_bit 128 1) = Inr sn \<and>
         x509_CreateCertificate e (template_for e sn ['''']) (template_for e sn [''''])
           (publicKey (RSA_PrivateKey k)) (RSA_PrivateKey k) = Inr der \<and>
         open_error e ''cert.pem'' = None \<and> open_error e ''key.pem'' = None"
  have ne: "[Host c] \<noteq> []"
    by simp
  from h have hc: "[Host c] = ['''']"
    by simp
  from ok show ret: "fst (generateCert e [Host c] w) = Return None"
    unfolding hc by (intro generateCert_success [where k = k and sn = sn and der = der]) simp_all
  then show "fst (main_certgen e c w) = Exit 0"
    by (rule main_certgen_success)
  from ok generateCert_certificates [of e "[Host c]" w]
  obtain cs where cs: "trace (snd (generateCert e [Host c] w)) = trace w @ cs"
    and flt: "filter is_CreateCertificate cs =
      [Call_CreateCertificate (template_for e sn [Host c]) (template_for e sn [Host c])
         (publicKey (RSA_PrivateKey k)) (RSA_PrivateKey k)]"
    by auto
  from h have "IPAddresses (template_for e sn [Host c]) = [] \<and>
               DNSNames (template_for e sn [Host c]) = ['''']"
    by simp
  with cs flt
  show "\<exists>cs t. trace (snd (generateCert e [Host c] w)) = trace w @ cs \<and>
            filter is_CreateCertificate cs =
              [Call_CreateCertificate t t (publicKey (RSA_PrivateKey k)) (RSA_PrivateKey k)] \<and>
            IPAddresses t = [] \<and> DNSNames t = ['''']"
    by blast
qed

theorem main_certgen_host_list_witness:
  "sample_ParseIP '''' = None \<and>
   fst (generateCert sample_env [Host \<lparr>Host = ''''\<rparr>] empty_world) = Return None \<and>
   fst (main_certgen sample_env \<lparr>Host = ''''\<rparr> empty_world) = Exit 0 \<and>
   (\<exists>cs t. trace (snd (generateCert sample_env [Host \<lparr>Host = ''''\<rparr>] empty_world))
              = trace empty_world @ cs \<and>
      filter is_CreateCertificate cs =
        [Call_CreateCertificate t t (publicKey (RSA_PrivateKey (sample_key 4096)))
           (RSA_PrivateKey (sample_key 4096))] \<and>
      IPAddresses t = [] \<and> DNSNames t = [''''])"
proof -
  let ?c = "\<lparr>Host = ''''\<rparr>"
  have p: "sample_ParseIP '''' = None"
    by (simp add: sample_ParseIP_def octet_def)
  have h: "Host ?c = '''' \<and> net_ParseIP sample_env '''' = None"
    by (simp add: sample_env_def p)
  have ok: "rsa_GenerateKey sample_env 4096 = Inr (sample_key 4096) \<and>
         rand_Int sample_env (push_bit 128 1) = Inr (2 ^ 128 - 1) \<and>
         x509_CreateCertificate sample_env (template_for sample_env (2 ^ 128 - 1) [''''])
           (template_for sample_env (2 ^ 128 - 1) [''''])
           (publicKey (RSA_PrivateKey (sample_key 4096))) (RSA_PrivateKey (sample_key 4096))
           = Inr [48, 130] \<and>
         open_error sample_env ''cert.pem'' = None \<and> open_error sample_env ''key.pem'' = None"
    by (simp add: sample_env_def push_bit_eq_mult)
  from main_certgen_host_list [of sample_env ?c empty_world] h ok p show ?thesis
    by blast
qed

subsection \<open>The key\<close>

text \<open>
  C10. The key \<open>generateCert\<close> creates is the RSA key \<open>rsa.GenerateKey\<close>
  returns for 4096 bits; when \<open>rsa.GenerateKey\<close> keeps its contract (a modulus
  of exactly the requested bit length) its modulus has 4096 bits. On it
  \<open>publicKey\<close> returns the RSA public key and \<open>pemBlockForKey\<close> returns the
  block labelled "RSA PRIVATE KEY" holding the PKCS#1 encoding. In the run,
  every key handed to \<open>x509.CreateCertificate\<close> is this key with its public
  half, every block written to \<open>key.pem\<close> is this block, nothing is written to
  standard error, and \<open>generateCert\<close> returns: neither the exit with code 2 of
  the ECDSA branch nor the \<open>nil\<close> of the default branches occurs.
\<close>

theorem generateCert_key_is_RSA:
  assumes hosts: "hosts \<noteq> []"
    and key: "rsa_GenerateKey e 4096 = Inr k"
    and contract: "\<And>bits k'. rsa_GenerateKey e bits = Inr k' \<Longrightarrow>
                     2 ^ (bits - 1) \<le> N (PublicKey k') \<and> N (PublicKey k') < 2 ^ bits"
    and tr: "trace (snd (generateCert e hosts w)) = trace w @ cs"
  shows "2 ^ 4095 \<le> N (PublicKey k) \<and> N (PublicKey k) < 2 ^ 4096 \<and>
         publicKey (RSA_PrivateKey k) = Some (RSA_PublicKey (PublicKey k)) \<and>
         pemBlockForKey e (RSA_PrivateKey k) w' =
           (Return (Some \<lparr>Type = ''RSA PRIVATE KEY'', Bytes = x509_MarshalPKCS1PrivateKey e k\<rparr>), w') \<and>
         (\<forall>t p pub priv. Call_CreateCertificate t p pub priv \<in> set cs \<longrightarrow>
            priv = RSA_PrivateKey k \<and> pub = Some (RSA_PublicKey (PublicKey k))) \<and>
         (\<forall>b. Call_pem_Encode ''key.pem'' b \<in> set cs \<longrightarrow>
            b = \<lparr>Type = ''RSA PRIVATE KEY'', Bytes = x509_MarshalPKCS1PrivateKey e k\<rparr>) \<and>
         (\<forall>m. Call_Stderr m \<notin> set cs) \<and>
         (\<exists>r. fst (generateCert e hosts w) = Return r)"
proof -
  from contract [OF key] have bits: "2 ^ 4095 \<le> N (PublicKey k) \<and> N (PublicKey k) < 2 ^ 4096"
    by simp
  have cc: "priv = RSA_PrivateKey k \<and> pub = Some (RSA_PublicKey (PublicKey k))"
    if "Call_CreateCertificate t p pub priv \<in> set cs" for t p pub priv
    using generateCert_CreateCertificate_call [OF tr that] key by auto
  from tr hosts key have cs: "cs =
    Call_GenerateKey 4096 # Call_Now # Call_rand_Int (push_bit 128 1) #
             (case rand_Int e (push_bit 128 1) of
                Inl err \<Rightarrow> []
              | Inr sn \<Rightarrow>
                  Call_CreateCertificate (template_for e sn hosts) (template_for e sn hosts)
                    (publicKey (RSA_PrivateKey k)) (RSA_PrivateKey k) #
                  (case x509_CreateCertificate e (template_for e sn hosts) (template_for e sn hosts)
                          (publicKey (RSA_PrivateKey k)) (RSA_PrivateKey k) of
                     Inl err \<Rightarrow> []
                   | Inr der \<Rightarrow>
                       Call_OpenFile ''cert.pem'' {O_WRONLY, O_CREATE, O_TRUNC} mode_0600 #
                       (case open_error e ''cert.pem'' of
                          Some err \<Rightarrow> []
                        | None \<Rightarrow>
                            [Call_pem_Encode ''cert.pem'' \<lparr>Type = ''CERTIFICATE'', Bytes = der\<rparr>,
                             Call_Close ''cert.pem'',
                             Call_log_Info ''Written cert.pem'',
                             Call_OpenFile ''key.pem'' {O_WRONLY, O_CREATE, O_TRUNC} mode_0600] @
                            (case open_error e ''key.pem'' of
                               Some err \<Rightarrow> []
                             | None \<Rightarrow>
                                 [Call_pem_Encode ''key.pem''
                                    \<lparr>Type = ''RSA PRIVATE KEY'',
                                     Bytes = x509_MarshalPKCS1PrivateKey e k\<rparr>,
                                  Call_Close ''key.pem'',
                                  Call_log_Info ''Written key.pem'']))))"
    by (simp add: generateCert_trace)
  have enc: "b = \<lparr>Type = ''RSA PRIVATE KEY'', Bytes = x509_MarshalPKCS1PrivateKey e k\<rparr>"
    if "Call_pem_Encode ''key.pem'' b \<in> set cs" for b
    using that unfolding cs by (auto split: sum.splits option.splits)
  have err: "Call_Stderr m \<notin> set cs" for m
    unfolding cs by (auto split: sum.splits option.splits)
  have pk: "publicKey (RSA_PrivateKey k) = Some (RSA_PublicKey (PublicKey k))"
    by simp
  have pb: "pemBlockForKey e (RSA_PrivateKey k) w' =
           (Return (Some \<lparr>Type = ''RSA PRIVATE KEY'', Bytes = x509_MarshalPKCS1PrivateKey e k\<rparr>), w')"
    by simp
  from bits pk pb cc enc err generateCert_returns [of e hosts w] show ?thesis
    by blast
qed

theorem generateCert_key_is_RSA_witness:
  "N (PublicKey (sample_key 4096)) = 2 ^ 4095 + 1 \<and>
   2 ^ 4095 \<le> N (PublicKey (sample_key 4096)) \<and> N (PublicKey (sample_key 4096)) < 2 ^ 4096 \<and>
   publicKey (RSA_PrivateKey (sample_key 4096)) = Some (RSA_PublicKey (PublicKey (sample_key 4096))) \<and>
   pemBlockForKey sample_env (RSA_PrivateKey (sample_key 4096)) empty_world =
     (Return (Some \<lparr>Type = ''RSA PRIVATE KEY'', Bytes = [48, 131]\<rparr>), empty_world) \<and>
   (\<exists>r. fst (generateCert sample_env sample_hosts empty_world) = Return r)"
proof -
  let ?G = "generateCert sample_env sample_hosts empty_world"
  have h1: "sample_hosts \<noteq> []"
    by (simp add: sample_hosts_def)
  have h2: "rsa_GenerateKey sample_env 4096 = Inr (sample_key 4096)"
    by (simp add: sample_env_def)
  have h3: "\<And>bits k'. rsa_GenerateKey sample_env bits = Inr k' \<Longrightarrow>
              2 ^ (bits - 1) \<le> N (PublicKey k') \<and> N (PublicKey k') < 2 ^ bits"
  proof -
    fix bits :: nat and k'
    assume a: "rsa_GenerateKey sample_env bits = Inr k'"
    then have k': "N (PublicKey k') = 2 ^ (bits - 1) + 1" and b: "2 \<le> bits"
      by (auto simp: sample_env_def sample_key_def split: if_splits)
    from b obtain m where m: "bits = Suc (Suc m)"
      by (metis Suc_le_D numeral_2_eq_2 Suc_le_mono)
    have "(1::int) \<le> 2 ^ m"
      by simp
    then have "(1::int) < 2 * 2 ^ m"
      by linarith
    then have "(1::int) < 2 ^ Suc m"
      by simp
    with k' show "2 ^ (bits - 1) \<le> N (PublicKey k') \<and> N (PublicKey k') < 2 ^ bits"
      unfolding m by simp
  qed
  have h4: "trace (snd ?G) = trace empty_world @ trace (snd ?G)"
    by (simp add: empty_world_def)
  have m: "x509_MarshalPKCS1PrivateKey sample_env (sample_key 4096) = [48, 131]"
    by (simp add: sample_env_def)
  have n: "N (PublicKey (sample_key 4096)) = 2 ^ 4095 + 1"
    by (simp add: sample_key_def)
  from generateCert_key_is_RSA [OF h1 h2 h3 h4, of empty_world] m n show ?thesis
    by simp
qed

subsection \<open>The configuration skeleton\<close>

text \<open>
  C7. The text that \<open>-dump-config\<close> produces (the zero-valued \<open>ManagerConfig\<close>
  marshalled with indentation, as printed, with or without the final line
  feed) is parsed back by the loader's \<open>json.Unmarshal\<close> into the zero-valued
  \<open>ManagerConfig\<close>, without error.
\<close>

theorem dumpConfig_roundtrip:
  "\<exists>b. json_MarshalIndent zero_ManagerConfig [] ''    '' = Inr b \<and>
       main_dumpConfig w = (Exit 0, emit (Call_Stdout (b @ [CHR 0x0A])) w) \<and>
       json_Unmarshal b zero_ManagerConfig = Inr zero_ManagerConfig \<and>
       json_Unmarshal (b @ [CHR 0x0A]) zero_ManagerConfig = Inr zero_ManagerConfig \<and>
       main_parseConfig e (b @ [CHR 0x0A]) zero_ManagerConfig w' = (Return zero_ManagerConfig, w')"
proof -
  let ?b = "''{'' @ [CHR 0x0A] @ ''    '' @ [CHR 0x22] @ ''Host'' @ [CHR 0x22] @ '': ''
          @ [CHR 0x22, CHR 0x22, CHR 0x0A] @ ''}''"
  have dump: "main_dumpConfig w = (Exit 0, emit (Call_Stdout (?b @ [CHR 0x0A])) w)"
    unfolding main_dumpConfig_def skeleton_text by simp
  have load: "main_parseConfig e (?b @ [CHR 0x0A]) zero_ManagerConfig w' = (Return zero_ManagerConfig, w')"
    unfolding main_parseConfig_def skeleton_line_parses by simp
  from skeleton_text skeleton_parses skeleton_line_parses dump load show ?thesis
    by blast
qed

end
